theory Spec2Isabelle
  imports Main "HOL-Library.Word" "HOL-Library.AList"
begin

section \<open>JavaScript values used by the sources\<close>

text \<open>
  Exceptions that the modelled code can raise: a \<open>TypeError\<close> when a property
  of \<open>null\<close> is read or a value that is no function is called, a \<open>URIError\<close>
  from \<open>decodeURI\<close>, a \<open>ParseError\<close> of the tokenizer with its message, and
  \<open>OtherError\<close> for an exception raised by a collaborator.
\<close>

datatype error = TypeError | URIError | ParseError string | OtherError string

text \<open>
  The values an option of the parser can hold. Numbers are integers or \<open>NaN\<close>; a
  fractional number is truthy like every other non-zero number.
\<close>

datatype jsval =
    JUndefined
  | JNull
  | JBool bool
  | JNum int
  | JNaN
  | JStr string
  | JObj

fun truthy :: "jsval \<Rightarrow> bool" where
  "truthy JUndefined = False"
| "truthy JNull = False"
| "truthy (JBool b) = b"
| "truthy (JNum n) = (n \<noteq> 0)"
| "truthy JNaN = False"
| "truthy (JStr s) = (s \<noteq> [])"
| "truthy JObj = True"

text \<open>The operator \<open>a || b\<close>: the left operand when it is truthy, else the right one.\<close>

definition jsOr :: "jsval \<Rightarrow> jsval \<Rightarrow> jsval" where
  "jsOr a b = (if truthy a then a else b)"

text \<open>\<open>s.indexOf(c)\<close> for a one-character needle: the first index, or \<open>-1\<close>.\<close>

definition indexOf :: "string \<Rightarrow> char \<Rightarrow> int" where
  "indexOf s c = (if c \<in> set s then int (length (takeWhile (\<lambda>x. x \<noteq> c) s)) else - 1)"

text \<open>
  \<open>s.substr(start)\<close> without a length: from \<open>start\<close> to the end, a negative
  \<open>start\<close> counting from the end of the string.
\<close>

definition substr :: "string \<Rightarrow> int \<Rightarrow> string" where
  "substr s start =
     (if start < 0 then drop (nat (max (int (length s) + start) 0)) s
      else drop (nat start) s)"

text \<open>\<open>s.split(sep)\<close> for a one-character separator: never an empty array.\<close>

fun split :: "string \<Rightarrow> char \<Rightarrow> string list" where
  "split [] sep = [[]]"
| "split (c # cs) sep =
     (if c = sep then [] # split cs sep
      else (case split cs sep of
              [] \<Rightarrow> [[c]]
            | x # xs \<Rightarrow> (c # x) # xs))"

section \<open>utils/xml.js: the node tree\<close>

text \<open>
  Nodes are mutable objects that refer to each other (\<open>parent\<close>, \<open>children\<close>), so
  they live in a store: the list of all nodes allocated so far, a node's address
  being its index. \<open>null\<close> is \<open>None\<close>.
\<close>

type_synonym attrs = "(string \<times> string) list"

record node =
  node_name :: "string option"
  node_attributes :: attrs
  node_text :: "string option"
  node_parent :: "nat option"
  node_children :: "nat list"

text \<open>
  \<open>xmlNode(opts)\<close> as its two callers use it, with \<open>name\<close>, \<open>attributes\<close> and
  \<open>parent\<close>: \<open>opts.name || null\<close> turns the empty name into \<open>null\<close>, the text
  is \<open>null\<close> and the list of children is a fresh empty array.
\<close>

definition xmlNode :: "string \<Rightarrow> attrs \<Rightarrow> nat option \<Rightarrow> node" where
  "xmlNode nm as par =
     \<lparr> node_name = (if nm = [] then None else Some nm),
       node_attributes = as,
       node_text = None,
       node_parent = par,
       node_children = [] \<rparr>"

section \<open>utils/xml.js: the parser\<close>

text \<open>
  The options object: \<open>None\<close> is a missing (or falsy) argument, replaced by
  \<open>{}\<close>, whose properties are all \<open>undefined\<close>.
\<close>

record parserOpts =
  opt_strict :: jsval
  opt_excludeNamespace :: jsval

text \<open>
  The closure of \<open>xmlParser\<close>: the first argument handed to \<open>sax.parser\<close>, the
  variable \<open>excludeNamespace\<close>, the store of nodes and \<open>currentTagNode\<close>; and of
  the tokenizer object \<open>parser\<close> the error it keeps (\<open>saxError\<close>): the
  tokenizer stores each error it reports and raises the stored error at the start
  of every later \<open>write\<close> and at \<open>close\<close>.
\<close>

record parser =
  saxStrict :: jsval
  excludeNamespace :: jsval
  heap :: "node list"
  currentTagNode :: "nat option"
  saxError :: "string option"

definition xmlParser :: "parserOpts option \<Rightarrow> parser" where
  "xmlParser opts =
     (let opts' = (case opts of
                     None \<Rightarrow> \<lparr> opt_strict = JUndefined, opt_excludeNamespace = JUndefined \<rparr>
                   | Some o' \<Rightarrow> o')
      in \<lparr> saxStrict = jsOr (opt_strict opts') (JBool True),
           excludeNamespace = jsOr (opt_excludeNamespace opts') (JBool True),
           heap = [],
           currentTagNode = None,
           saxError = None \<rparr>)"

text \<open>
  The namespace stripping shared by \<open>onOpenTag\<close> and \<open>onCloseTag\<close>:
  \<open>if (excludeNamespace && tagName.indexOf(":") >= 0) tagName = tagName.substr(...)\<close>.
\<close>

definition stripNamespace :: "parser \<Rightarrow> string \<Rightarrow> string" where
  "stripNamespace p tagName =
     (if truthy (excludeNamespace p) \<and> indexOf tagName (CHR '':'') \<ge> 0
      then substr tagName (indexOf tagName (CHR '':'') + 1)
      else tagName)"

definition onText :: "string \<Rightarrow> parser \<Rightarrow> parser" where
  "onText txt p =
     (case currentTagNode p of
        None \<Rightarrow> p
      | Some a \<Rightarrow> p\<lparr> heap := (heap p)[a := (heap p ! a)\<lparr> node_text := Some txt \<rparr>] \<rparr>)"

text \<open>
  \<open>onOpenTag\<close>: the new node is appended to the store; reading \<open>children\<close> of
  a \<open>null\<close> \<open>currentTagNode\<close> raises, before any assignment.
\<close>

definition onOpenTag :: "string \<Rightarrow> attrs \<Rightarrow> parser \<Rightarrow> error + parser" where
  "onOpenTag name0 as p =
     (let tagName = stripNamespace p name0;
          nd = xmlNode tagName as (currentTagNode p);
          addr = length (heap p)
      in case currentTagNode p of
           None \<Rightarrow> Inl TypeError
         | Some a \<Rightarrow>
             Inr (p\<lparr> heap := (heap p @ [nd])
                              [a := (heap p ! a)\<lparr> node_children := node_children (heap p ! a) @ [addr] \<rparr>],
                     currentTagNode := Some addr \<rparr>))"

text \<open>
  \<open>onCloseTag\<close>: \<open>currentTagNode.name === tagName\<close> holds when the name is that
  string; a \<open>null\<close> name equals no string.
\<close>

definition onCloseTag :: "string \<Rightarrow> parser \<Rightarrow> error + parser" where
  "onCloseTag name0 p =
     (let tagName = stripNamespace p name0
      in case currentTagNode p of
           None \<Rightarrow> Inl TypeError
         | Some a \<Rightarrow>
             if node_name (heap p ! a) = Some tagName
             then Inr (p\<lparr> currentTagNode := node_parent (heap p ! a) \<rparr>)
             else Inr p)"

text \<open>
  The events that the sax tokenizer delivers to the handlers installed by
  \<open>init\<close>. \<open>onError\<close> only writes to the console: the error that the tokenizer
  stored stays stored.
\<close>

datatype saxEvent =
    SaxText string
  | SaxOpenTag string attrs
  | SaxCloseTag string
  | SaxError string

fun handle :: "saxEvent \<Rightarrow> parser \<Rightarrow> error + parser" where
  "handle (SaxText txt) p = Inr (onText txt p)"
| "handle (SaxOpenTag nm as) p = onOpenTag nm as p"
| "handle (SaxCloseTag nm) p = onCloseTag nm p"
| "handle (SaxError msg) p = Inr (p\<lparr> saxError := Some msg \<rparr>)"

text \<open>
  \<open>parser.write(xml)\<close> seen from the handlers: the events in order; a handler that
  raises ends the call, the closure keeping the state reached.
\<close>

fun deliver :: "saxEvent list \<Rightarrow> parser \<Rightarrow> error option \<times> parser" where
  "deliver [] p = (None, p)"
| "deliver (e # es) p =
     (case handle e p of
        Inl err \<Rightarrow> (Some err, p)
      | Inr p' \<Rightarrow> deliver es p')"

text \<open>
  \<open>parse\<close>: a fresh root node named \<open>"/"\<close> becomes \<open>currentTagNode\<close>, then
  \<open>parser.write(xml).close()\<close> runs, the document being given by the events that
  the tokenizer produces for it. \<open>write\<close> raises at once when an error is stored
  from an earlier document; an exception of a handler leaves \<open>write\<close>; and
  \<open>close\<close> raises the error stored while the document was read. The callback of
  \<open>parse\<close> is called when \<open>close\<close> ends without an exception, and assigns
  nothing here.
\<close>

definition parse :: "saxEvent list \<Rightarrow> parser \<Rightarrow> error option \<times> parser" where
  "parse events p =
     (let p0 = p\<lparr> heap := heap p @ [xmlNode ''/'' [] None],
                   currentTagNode := Some (length (heap p)) \<rparr>
      in case saxError p0 of
           Some msg \<Rightarrow> (Some (ParseError msg), p0)
         | None \<Rightarrow>
             (case deliver events p0 of
                (Some err, p1) \<Rightarrow> (Some err, p1)
              | (None, p1) \<Rightarrow>
                  (case saxError p1 of
                     Some msg \<Rightarrow> (Some (ParseError msg), p1)
                   | None \<Rightarrow> (None, p1))))"

text \<open>
  \<open>subQuery\<close>: \<open>searchPath[0]\<close> of an empty path is \<open>undefined\<close>, which differs
  from every name, so no child matches.
\<close>

fun subQuery :: "node list \<Rightarrow> string list \<Rightarrow> nat \<Rightarrow> nat list" where
  "subQuery h [] a = []"
| "subQuery h (seg # rest) a =
     concat (map (\<lambda>child.
                    if Some seg \<noteq> node_name (h ! child) then []
                    else if length (seg # rest) > 1 then subQuery h rest child
                    else [child])
                 (node_children (h ! a)))"

definition query :: "string \<Rightarrow> parser \<Rightarrow> error + nat list" where
  "query xpath p =
     (let path = split xpath (CHR ''/'');
          path' = (case path of
                     [] \<Rightarrow> []
                   | x # xs \<Rightarrow> if x = [] then xs else path)
      in case currentTagNode p of
           None \<Rightarrow> Inl TypeError
         | Some a \<Rightarrow> Inr (subQuery (heap p) path' a))"

text \<open>
  The tokenizer's events for the document \<open><foo><bar/><bar/><baz/></foo>\<close>: an
  empty-element tag is delivered as an open tag followed by a close tag.
\<close>

definition fooDocument :: "saxEvent list" where
  "fooDocument =
     [SaxOpenTag ''foo'' [],
      SaxOpenTag ''bar'' [], SaxCloseTag ''bar'',
      SaxOpenTag ''bar'' [], SaxCloseTag ''bar'',
      SaxOpenTag ''baz'' [], SaxCloseTag ''baz'',
      SaxCloseTag ''foo'']"

section \<open>utils/xml.js: the decode helper\<close>

text \<open>
  A JavaScript string is a sequence of 16-bit code units. \<open>js\<close> gives the code
  units of an ASCII literal.
\<close>

type_synonym jsstring = "16 word list"

definition js :: "string \<Rightarrow> jsstring" where
  "js s = map (\<lambda>c. of_nat (of_char c)) s"

text \<open>The value of a hexadecimal digit, if the code unit is one.\<close>

definition hexval :: "16 word \<Rightarrow> nat option" where
  "hexval c =
     (let n = unat c
      in if 48 \<le> n \<and> n \<le> 57 then Some (n - 48)
         else if 65 \<le> n \<and> n \<le> 70 then Some (n - 55)
         else if 97 \<le> n \<and> n \<le> 102 then Some (n - 87)
         else None)"

text \<open>The octet written \<open>%XY\<close> at the head of a string, if there is one.\<close>

fun pctByte :: "jsstring \<Rightarrow> nat option" where
  "pctByte (p # h1 # h2 # _) =
     (if p = 37
      then (case hexval h1 of
              None \<Rightarrow> None
            | Some a \<Rightarrow> (case hexval h2 of None \<Rightarrow> None | Some b \<Rightarrow> Some (16 * a + b)))
      else None)"
| "pctByte _ = None"

text \<open>
  The number of leading one bits of an octet with its highest bit set: the length
  that the first octet of a UTF-8 sequence announces.
\<close>

definition leadingOnes :: "nat \<Rightarrow> nat" where
  "leadingOnes B =
     (if B < 192 then 1 else if B < 224 then 2 else if B < 240 then 3
      else if B < 248 then 4 else 5)"

text \<open>The \<open>j\<close> continuation octets \<open>%XY\<close>, each of the form \<open>10xxxxxx\<close>.\<close>

fun contBytes :: "nat \<Rightarrow> jsstring \<Rightarrow> nat list option" where
  "contBytes 0 s = Some []"
| "contBytes (Suc j) s =
     (case pctByte s of
        None \<Rightarrow> None
      | Some b \<Rightarrow>
          if b div 64 = 2
          then (case contBytes j (drop 3 s) of None \<Rightarrow> None | Some bs \<Rightarrow> Some (b # bs))
          else None)"

text \<open>
  The code point of a UTF-8 sequence of two to four octets; \<open>None\<close> for an
  overlong form, a surrogate or a value beyond \<open>0x10FFFF\<close>.
\<close>

fun utf8Value :: "nat list \<Rightarrow> nat option" where
  "utf8Value [b0, b1] =
     (let V = (b0 mod 32) * 64 + b1 mod 64
      in if 128 \<le> V then Some V else None)"
| "utf8Value [b0, b1, b2] =
     (let V = (b0 mod 16) * 4096 + (b1 mod 64) * 64 + b2 mod 64
      in if 2048 \<le> V \<and> \<not> (55296 \<le> V \<and> V \<le> 57343) then Some V else None)"
| "utf8Value [b0, b1, b2, b3] =
     (let V = (b0 mod 8) * 262144 + (b1 mod 64) * 4096 + (b2 mod 64) * 64 + b3 mod 64
      in if 65536 \<le> V \<and> V \<le> 1114111 then Some V else None)"
| "utf8Value _ = None"

text \<open>
  The abstract operation \<open>Decode(string, reservedSet)\<close> of the language
  standard, behind \<open>decodeURI\<close>: a code unit other than \<open>%\<close> is copied; an escape
  of a code unit in \<open>reservedSet\<close> is copied as it is written; any other escape
  sequence is replaced by the character it encodes in UTF-8 (a surrogate pair
  beyond the basic plane); a malformed escape raises \<open>URIError\<close>.
\<close>

function Decode :: "jsstring \<Rightarrow> jsstring \<Rightarrow> error + jsstring" where
  "Decode [] reservedSet = Inr []"
| "Decode (c # cs) reservedSet =
     (if c \<noteq> 37
      then (case Decode cs reservedSet of Inl e \<Rightarrow> Inl e | Inr R \<Rightarrow> Inr (c # R))
      else (case pctByte (c # cs) of
              None \<Rightarrow> Inl URIError
            | Some B \<Rightarrow>
                if B < 128
                then (case Decode (drop 2 cs) reservedSet of
                        Inl e \<Rightarrow> Inl e
                      | Inr R \<Rightarrow>
                          Inr ((if of_nat B \<notin> set reservedSet then [of_nat B]
                                else take 3 (c # cs)) @ R))
                else if leadingOnes B = 1 \<or> leadingOnes B > 4 then Inl URIError
                else (case contBytes (leadingOnes B - 1) (drop 2 cs) of
                        None \<Rightarrow> Inl URIError
                      | Some bs \<Rightarrow>
                          (case utf8Value (B # bs) of
                             None \<Rightarrow> Inl URIError
                           | Some V \<Rightarrow>
                               (case Decode (drop (2 + 3 * (leadingOnes B - 1)) cs) reservedSet of
                                  Inl e \<Rightarrow> Inl e
                                | Inr R \<Rightarrow>
                                    Inr ((if V < 65536 then [of_nat V]
                                          else [of_nat ((V - 65536) div 1024 mod 1024 + 55296),
                                                of_nat ((V - 65536) mod 1024 + 56320)]) @ R))))))"
  by pat_completeness auto
termination
  by (relation "measure (\<lambda>(s, r). length s)") auto

text \<open>
  \<open>decodeURI\<close>: the reserved set is \<open>;/?:@&=+$,\<close> together with \<open>#\<close>.
\<close>

definition decodeURI :: "jsstring \<Rightarrow> error + jsstring" where
  "decodeURI encodedURI = Decode encodedURI (js '';/?:@&=+$,#'')"

text \<open>
  \<open>s.replace(/pat/g, rep)\<close> for a pattern of literal characters: every match,
  found from left to right without overlap, is replaced.
\<close>

function replaceAll :: "jsstring \<Rightarrow> jsstring \<Rightarrow> jsstring \<Rightarrow> jsstring" where
  "replaceAll s pat rep =
     (if s = [] then []
      else if pat \<noteq> [] \<and> take (length pat) s = pat
      then rep @ replaceAll (drop (length pat) s) pat rep
      else hd s # replaceAll (tl s) pat rep)"
  by pat_completeness auto
termination
  by (relation "measure (\<lambda>(s, p, r). length s)") auto

text \<open>
  \<open>decodeXml\<close>; the code units 34 and 39 are the double and the single quote.
\<close>

definition decodeXml :: "jsstring \<Rightarrow> error + jsstring" where
  "decodeXml encodedXml =
     (case decodeURI encodedXml of
        Inl e \<Rightarrow> Inl e
      | Inr s0 \<Rightarrow>
          Inr (replaceAll
                (replaceAll
                  (replaceAll
                    (replaceAll
                      (replaceAll s0 (js ''&lt;'') (js ''<''))
                      (js ''&gt;'') (js ''>''))
                    (js ''&quot;'') [34])
                  (js ''&#039;'') [39])
                (js ''&amp;'') (js ''&'')))"

section \<open>main.js: the Sonos service\<close>

text \<open>
  Modelled from the spec: the device objects of the \<open>models\<close> package, which is
  not among the sources. A device has the fields \<open>id\<close>, \<open>infoUrl\<close>,
  \<open>mediaStateUrl\<close> and \<open>lastUpdated\<close> (a time in milliseconds);
  \<open>getInfoUrl\<close> and \<open>getLastUpdated\<close> read a field and \<open>setInfoUrl\<close> writes
  \<open>infoUrl\<close>. A device is an object that has no property named
  \<open>hasOwnProperty\<close> of its own.
\<close>

record device =
  dev_id :: string
  infoUrl :: string
  mediaStateUrl :: string
  lastUpdated :: int






text \<open>
  The functions handed to \<open>setTimeout\<close>: \<open>manageDeviceDecay\<close>, \<open>discover\<close>, and
  the closure of \<open>discover\<close> that sends \<open>data\<close> on its socket for the index \<open>time\<close>.
\<close>

datatype task =
    ManageDeviceDecay
  | Discover
  | SendDiscovery nat int string

text \<open>
  The calls made to the collaborators, in order: \<open>event.trigger\<close> of the
  devices event with a roster, \<open>net.httpRequest\<close> for a location,
  \<open>setTimeout\<close> of a task with a delay in milliseconds, opening and closing of the
  multicast group socket, opening of a discovery socket and a send on it.
\<close>

datatype effect =
    Trigger_DEVICES "device list"
  | HttpRequest string
  | SetTimeout task int
  | MulticastOpen
  | MulticastClose
  | SocketOpen nat
  | SocketSend nat string

text \<open>
  The variables of the closure \<open>sonosService\<close>. \<open>devices\<close> is an object used as
  a dictionary: the association list of its own properties, with distinct keys, in
  the order in which the properties were created. \<open>multicastGroupSocket\<close> tells
  whether the variable holds a socket; \<open>sockets\<close> counts the discovery sockets
  created, the next one's number.

  Two property names are not keys like the others, and neither is ever a key of
  the association list. An assignment to
  \<open>devices["__proto__"]\<close> creates no property: it replaces the prototype of
  \<open>devices\<close>, which none of the functions below can tell, a device having no
  \<open>hasOwnProperty\<close> of its own. An own property named \<open>hasOwnProperty\<close> hides
  the method that all the functions below call, so that each such call raises a
  \<open>TypeError\<close> from then on; a registry in that condition is not among the states
  that this record represents, and the one call that leads there ends with the
  outcome \<open>Breaks\<close>.
\<close>

record service =
  isServiceRunning :: bool
  multicastGroupSocket :: bool
  sockets :: nat
  devices :: "(string \<times> device) list"
  effects :: "effect list"



definition deviceMaxLifetime :: int where
  "deviceMaxLifetime = 1000 * 60 * 5"

definition sonosService :: service where
  "sonosService =
     \<lparr> isServiceRunning = False, multicastGroupSocket = False, sockets = 0,
       devices = [], effects = [] \<rparr>"

definition emit :: "effect \<Rightarrow> service \<Rightarrow> service" where
  "emit e s = s\<lparr> effects := effects s @ [e] \<rparr>"

text \<open>
  The order in which \<open>for ... in\<close> visits the own properties of an object: the
  names that are array indices (the decimal numeral, without a leading zero, of a
  number below \<open>2^32 - 1\<close>) in ascending order of their value, then the other names
  in the order of creation.
\<close>

definition isDigit :: "char \<Rightarrow> bool" where
  "isDigit c = (48 \<le> (of_char c :: int) \<and> (of_char c :: int) \<le> 57)"

definition decimalValue :: "string \<Rightarrow> int" where
  "decimalValue s = foldl (\<lambda>n c. 10 * n + (of_char c - 48)) 0 s"

definition isArrayIndex :: "string \<Rightarrow> bool" where
  "isArrayIndex s =
     (s \<noteq> [] \<and> list_all isDigit s \<and> (s = ''0'' \<or> take 1 s \<noteq> ''0'')
      \<and> decimalValue s < 4294967295)"

definition propertyOrder :: "(string \<times> 'a) list \<Rightarrow> (string \<times> 'a) list" where
  "propertyOrder al =
     sort_key (\<lambda>kv. decimalValue (fst kv)) (filter (\<lambda>kv. isArrayIndex (fst kv)) al)
     @ filter (\<lambda>kv. \<not> isArrayIndex (fst kv)) al"

definition hasOwnProperty :: "service \<Rightarrow> string \<Rightarrow> bool" where
  "hasOwnProperty s deviceId = (map_of (devices s) deviceId \<noteq> None)"

definition getDevices :: "service \<Rightarrow> device list" where
  "getDevices s = map snd (propertyOrder (devices s))"

definition removeDevice :: "string \<Rightarrow> service \<Rightarrow> service" where
  "removeDevice deviceId s =
     (if hasOwnProperty s deviceId
      then (let s' = s\<lparr> devices := AList.delete deviceId (devices s) \<rparr>
            in emit (Trigger_DEVICES (getDevices s')) s')
      else s)"


text \<open>
  \<open>requestDeviceDetails(location)\<close>: the request is started, its callback runs
  when the response arrives (\<open>xhrCallback\<close> below), and a sweep is scheduled.
\<close>

definition requestDeviceDetails :: "string \<Rightarrow> service \<Rightarrow> service" where
  "requestDeviceDetails location s =
     emit (SetTimeout ManageDeviceDecay deviceMaxLifetime) (emit (HttpRequest location) s)"


text \<open>
  The body of the loop of \<open>manageDeviceDecay\<close> for one property name, with
  \<open>referenceTime\<close> computed before the loop.
\<close>

definition decayStep :: "int \<Rightarrow> string \<Rightarrow> service \<Rightarrow> service" where
  "decayStep referenceTime deviceId s =
     (case map_of (devices s) deviceId of
        None \<Rightarrow> s
      | Some d \<Rightarrow>
          if lastUpdated d \<le> referenceTime
          then requestDeviceDetails (infoUrl d) (removeDevice deviceId s)
          else s)"

text \<open>The loop over the property names of \<open>devices\<close>.\<close>

fun decayLoop :: "int \<Rightarrow> string list \<Rightarrow> service \<Rightarrow> service" where
  "decayLoop referenceTime [] s = s"
| "decayLoop referenceTime (deviceId # ids) s =
     decayLoop referenceTime ids (decayStep referenceTime deviceId s)"

text \<open>
  \<open>manageDeviceDecay\<close>, \<open>now\<close> being the value of \<open>Date.now()\<close>; the loop
  visits the property names in the order of \<open>for ... in\<close>.
\<close>

definition manageDeviceDecay :: "int \<Rightarrow> service \<Rightarrow> service" where
  "manageDeviceDecay now s =
     decayLoop (now - deviceMaxLifetime) (map fst (propertyOrder (devices s))) s"



text \<open>
  \<open>discover\<close> creates a socket and opens it; the callback of \<open>open\<close>, with
  \<open>data\<close> the result of \<open>discoveryMessage.toData()\<close>, sets the four timers.
\<close>

definition discover :: "service \<Rightarrow> service" where
  "discover s = emit (SocketOpen (sockets s)) (s\<lparr> sockets := Suc (sockets s) \<rparr>)"

definition discoverOpened :: "nat \<Rightarrow> string \<Rightarrow> service \<Rightarrow> service" where
  "discoverOpened socket data s =
     fold (\<lambda>time. emit (SetTimeout (SendDiscovery socket time data) (time * 500))) [0, 1, 2, 3] s"

text \<open>A timer fires: the function handed to \<open>setTimeout\<close> runs.\<close>

definition runTask :: "task \<Rightarrow> int \<Rightarrow> service \<Rightarrow> service" where
  "runTask t now s =
     (case t of
        ManageDeviceDecay \<Rightarrow> manageDeviceDecay now s
      | Discover \<Rightarrow> discover s
      | SendDiscovery socket time data \<Rightarrow> emit (SocketSend socket data) s)"

text \<open>
  \<open>start\<close> and \<open>stop\<close>; \<open>haveSocketSupport\<close> and \<open>isClosed\<close> are the answers
  of the \<open>net\<close> package and of the multicast socket.
\<close>

definition start :: "bool \<Rightarrow> bool \<Rightarrow> service \<Rightarrow> service" where
  "start haveSocketSupport isClosed s =
     (if \<not> haveSocketSupport then s
      else (let s1 = s\<lparr> isServiceRunning := True \<rparr>
            in if multicastGroupSocket s1 \<and> \<not> isClosed then s1
               else (let s2 = emit MulticastOpen (s1\<lparr> multicastGroupSocket := True \<rparr>);
                         s3 = emit (Trigger_DEVICES (getDevices s2)) s2
                     in emit (SetTimeout Discover 10000)
                          (emit (SetTimeout Discover 3000) (discover s3)))))"


section \<open>Concrete inputs\<close>

text \<open>A parser with one open element \<open>foo\<close> under the root.\<close>

definition fooOpen :: parser where
  "fooOpen = snd (parse [SaxOpenTag ''foo'' []] (xmlParser None))"
















section \<open>Properties of the XML parser\<close>






lemma concat_map_if_filter:
  "concat (map (\<lambda>x. if P x then [] else f x) xs) = concat (map f (filter (\<lambda>x. \<not> P x) xs))"
  by (induction xs) simp_all

text \<open>
  Claim C4. A close-tag event whose name, after the namespace prefix is stripped,
  differs from the name of the node that is currently open does not move
  \<open>currentTagNode\<close>: the handler returns the parser as it was, without an
  exception, and the remaining events are handled from that same state.
\<close>

theorem onCloseTag_mismatch_keeps_open:
  assumes "currentTagNode p = Some a"
    and "node_name (heap p ! a) \<noteq> Some (stripNamespace p nm)"
  shows "onCloseTag nm p = Inr p \<and> deliver (SaxCloseTag nm # es) p = deliver es p"
  using assms by (simp add: onCloseTag_def Let_def)

theorem onCloseTag_mismatch_keeps_open_witness:
  "currentTagNode fooOpen = Some 1 \<and>
   node_name (heap fooOpen ! 1) \<noteq> Some (stripNamespace fooOpen ''u:bar'') \<and>
   onCloseTag ''u:bar'' fooOpen = Inr fooOpen \<and>
   deliver [SaxCloseTag ''u:bar'', SaxText ''x''] fooOpen = deliver [SaxText ''x''] fooOpen"
proof -
  have h1: "currentTagNode fooOpen = Some 1"
    by code_simp
  have h2: "node_name (heap fooOpen ! 1) \<noteq> Some (stripNamespace fooOpen ''u:bar'')"
    by code_simp
  from h1 h2 onCloseTag_mismatch_keeps_open [OF h1 h2, of "[SaxText ''x'']"]
  show ?thesis by blast
qed

text \<open>
  Claim C8. On the document \<open><foo><bar/><bar/><baz/></foo>\<close> the query
  \<open>/foo/bar\<close> returns exactly the two \<open>bar\<close> nodes, in document order (they are
  the first two children of \<open>foo\<close>). At each level a segment selects the direct
  children whose name is equal to it, in the order of the list of children; a
  segment that no child matches gives the empty result, and a query on a parser
  with a current node returns a result, not an exception.
\<close>

theorem query_foo_bar:
  "query ''/foo/bar'' (snd (parse fooDocument (xmlParser None))) = Inr [2, 3] \<and>
   map (\<lambda>a. node_name (heap (snd (parse fooDocument (xmlParser None))) ! a)) [2, 3]
     = [Some ''bar'', Some ''bar''] \<and>
   node_children (heap (snd (parse fooDocument (xmlParser None))) ! 1) = [2, 3, 4] \<and>
   subQuery h [seg] a = filter (\<lambda>c. node_name (h ! c) = Some seg) (node_children (h ! a)) \<and>
   subQuery h (seg # seg' # rest) a =
     concat (map (subQuery h (seg' # rest))
                 (filter (\<lambda>c. node_name (h ! c) = Some seg) (node_children (h ! a)))) \<and>
   (filter (\<lambda>c. node_name (h ! c) = Some seg) (node_children (h ! a)) = []
      \<longrightarrow> subQuery h (seg # path) a = []) \<and>
   (currentTagNode p = Some a \<longrightarrow> (\<exists>r. query xpath p = Inr r))"
proof -
  have c1: "query ''/foo/bar'' (snd (parse fooDocument (xmlParser None))) = Inr [2, 3]"
    by code_simp
  have c2: "map (\<lambda>a. node_name (heap (snd (parse fooDocument (xmlParser None))) ! a)) [2, 3]
     = [Some ''bar'', Some ''bar'']"
    by code_simp
  have c3: "node_children (heap (snd (parse fooDocument (xmlParser None))) ! 1) = [2, 3, 4]"
    by code_simp
  have g: "subQuery h (seg # path) a =
     concat (map (\<lambda>child. if path \<noteq> [] then subQuery h path child else [child])
                 (filter (\<lambda>c. node_name (h ! c) = Some seg) (node_children (h ! a))))"
    for path
  proof -
    have "subQuery h (seg # path) a =
       concat (map (\<lambda>child. if Some seg \<noteq> node_name (h ! child) then []
                             else (if path \<noteq> [] then subQuery h path child else [child]))
                   (node_children (h ! a)))"
      by (simp cong: if_cong)
    also have "\<dots> = concat (map (\<lambda>child. if path \<noteq> [] then subQuery h path child else [child])
                 (filter (\<lambda>c. \<not> Some seg \<noteq> node_name (h ! c)) (node_children (h ! a))))"
      by (rule concat_map_if_filter)
    also have "(\<lambda>c. \<not> Some seg \<noteq> node_name (h ! c)) = (\<lambda>c. node_name (h ! c) = Some seg)"
      by auto
    finally show ?thesis .
  qed
  have c4: "subQuery h [seg] a = filter (\<lambda>c. node_name (h ! c) = Some seg) (node_children (h ! a))"
    by (simp only: g [of "[]"]) (simp add: concat_map_singleton)
  have c5: "subQuery h (seg # seg' # rest) a =
     concat (map (subQuery h (seg' # rest))
                 (filter (\<lambda>c. node_name (h ! c) = Some seg) (node_children (h ! a))))"
    by (simp only: g [of "seg' # rest"]) (simp del: subQuery.simps)
  have c6: "filter (\<lambda>c. node_name (h ! c) = Some seg) (node_children (h ! a)) = []
      \<longrightarrow> subQuery h (seg # path) a = []"
    by (simp only: g [of path]) simp
  have c7: "currentTagNode p = Some a \<longrightarrow> (\<exists>r. query xpath p = Inr r)"
    by (simp add: query_def Let_def)
  from c1 c2 c3 c4 c5 c6 c7 show ?thesis by blast
qed

theorem query_foo_bar_witness:
  "filter (\<lambda>c. node_name (heap (snd (parse fooDocument (xmlParser None))) ! c) = Some ''qux'')
          (node_children (heap (snd (parse fooDocument (xmlParser None))) ! 1)) = [] \<and>
   subQuery (heap (snd (parse fooDocument (xmlParser None)))) [''qux'', ''bar''] 1 = [] \<and>
   currentTagNode (snd (parse fooDocument (xmlParser None))) = Some 0 \<and>
   (\<exists>r. query ''/foo/qux/bar'' (snd (parse fooDocument (xmlParser None))) = Inr r) \<and>
   query ''/foo/bar'' (snd (parse fooDocument (xmlParser None))) = Inr [2, 3]"
proof -
  have h1: "filter (\<lambda>c. node_name (heap (snd (parse fooDocument (xmlParser None))) ! c) = Some ''qux'')
          (node_children (heap (snd (parse fooDocument (xmlParser None))) ! 1)) = []"
    by code_simp
  have h2: "currentTagNode (snd (parse fooDocument (xmlParser None))) = Some 0"
    by code_simp
  from h1 query_foo_bar [of "heap (snd (parse fooDocument (xmlParser None)))" "''qux''" 1 _ _ "[''bar'']"]
  have a: "subQuery (heap (snd (parse fooDocument (xmlParser None)))) [''qux'', ''bar''] 1 = []"
    by blast
  from h2 query_foo_bar [of _ _ 0 _ _ _ "snd (parse fooDocument (xmlParser None))" "''/foo/qux/bar''"]
  have b: "\<exists>r. query ''/foo/qux/bar'' (snd (parse fooDocument (xmlParser None))) = Inr r"
    by blast
  have c: "query ''/foo/bar'' (snd (parse fooDocument (xmlParser None))) = Inr [2, 3]"
    using query_foo_bar by blast
  from h1 h2 a b c show ?thesis by blast
qed



text \<open>
  Claim C10. A text event stores its chunk in the text field of the open element
  whatever the field held: after two text events the field holds the second chunk
  only, also when a child element was opened and closed between the two.
\<close>

theorem onText_overwrites:
  assumes "currentTagNode p = Some a" and "a < length (heap p)" and "stripNamespace p c \<noteq> []"
  shows "node_text (heap (onText t2 (onText t1 p)) ! a) = Some t2 \<and>
         (\<exists>p'. deliver [SaxText t1, SaxOpenTag c as, SaxCloseTag c, SaxText t2] p = (None, p') \<and>
               currentTagNode p' = Some a \<and> node_text (heap p' ! a) = Some t2)"
  using assms
  by (simp add: onText_def onOpenTag_def onCloseTag_def Let_def stripNamespace_def xmlNode_def
      nth_append)

theorem onText_overwrites_witness:
  "currentTagNode fooOpen = Some 1 \<and> 1 < length (heap fooOpen) \<and>
   stripNamespace fooOpen ''b'' \<noteq> [] \<and>
   node_text (heap (onText ''second'' (onText ''first'' fooOpen)) ! 1) = Some ''second'' \<and>
   (\<exists>p'. deliver [SaxText ''first'', SaxOpenTag ''b'' [], SaxCloseTag ''b'', SaxText ''second'']
            fooOpen = (None, p') \<and>
         currentTagNode p' = Some 1 \<and> node_text (heap p' ! 1) = Some ''second'')"
proof -
  have h1: "currentTagNode fooOpen = Some 1"
    by code_simp
  have h2: "1 < length (heap fooOpen)"
    by code_simp
  have h3: "stripNamespace fooOpen ''b'' \<noteq> []"
    by code_simp
  from h1 h2 h3 onText_overwrites [OF h1 h2 h3, of "''second''" "''first''" "[]"]
  show ?thesis by blast
qed

section \<open>Properties of the device registry\<close>

lemma emit_simps [simp]:
  "devices (emit e s) = devices s"
  "effects (emit e s) = effects s @ [e]"
  "isServiceRunning (emit e s) = isServiceRunning s"
  "sockets (emit e s) = sockets s"
  "multicastGroupSocket (emit e s) = multicastGroupSocket s"
  by (simp_all add: emit_def)







lemma requestDeviceDetails_simps [simp]:
  "devices (requestDeviceDetails l s) = devices s"
  "effects (requestDeviceDetails l s) =
     effects s @ [HttpRequest l, SetTimeout ManageDeviceDecay deviceMaxLifetime]"
  by (simp_all add: requestDeviceDetails_def)













section \<open>Properties of the service\<close>

lemma emit_running:
  "emit e (s\<lparr>isServiceRunning := b\<rparr>) = (emit e s)\<lparr>isServiceRunning := b\<rparr>"
  by (simp add: emit_def)











text \<open>
  Claim C7. One call of \<open>discover\<close> opens one socket and sends nothing itself.
  When that socket is open, its callback sets exactly four timers, with the
  delays 0, 500, 1000 and 1500 milliseconds, and each timer, when it fires, makes
  one send of the same data on that socket: four sends in all.
\<close>

theorem discover_four_sends:
  "effects (discover s) = effects s @ [SocketOpen (sockets s)] \<and>
   effects (discoverOpened socket data s) =
     effects s @ [SetTimeout (SendDiscovery socket 0 data) 0,
                  SetTimeout (SendDiscovery socket 1 data) 500,
                  SetTimeout (SendDiscovery socket 2 data) 1000,
                  SetTimeout (SendDiscovery socket 3 data) 1500] \<and>
   effects (runTask (SendDiscovery socket time data) now s) = effects s @ [SocketSend socket data] \<and>
   effects (runTask (SendDiscovery (sockets s) 3 data) t3
             (runTask (SendDiscovery (sockets s) 2 data) t2
               (runTask (SendDiscovery (sockets s) 1 data) t1
                 (runTask (SendDiscovery (sockets s) 0 data) t0
                   (discoverOpened (sockets s) data (discover s)))))) =
     effects s @ [SocketOpen (sockets s)]
       @ map (\<lambda>time. SetTimeout (SendDiscovery (sockets s) time data) (time * 500)) [0, 1, 2, 3]
       @ replicate 4 (SocketSend (sockets s) data)"
  by (simp add: discoverOpened_def runTask_def discover_def numeral_eq_Suc)

theorem discover_four_sends_witness:
  "effects (discoverOpened 0 ''M-SEARCH'' (discover sonosService)) =
     [SocketOpen 0,
      SetTimeout (SendDiscovery 0 0 ''M-SEARCH'') 0,
      SetTimeout (SendDiscovery 0 1 ''M-SEARCH'') 500,
      SetTimeout (SendDiscovery 0 2 ''M-SEARCH'') 1000,
      SetTimeout (SendDiscovery 0 3 ''M-SEARCH'') 1500]"
proof -
  have "effects (discover sonosService) = [SocketOpen 0]"
    using discover_four_sends [where s = sonosService] by (simp add: sonosService_def)
  with discover_four_sends
    [where s = "discover sonosService" and socket = 0 and data = "''M-SEARCH''"]
  show ?thesis by simp
qed

section \<open>Properties of the decode helper\<close>

text \<open>
  Claim C3. On \<open>%26lt%3Bfoo%26gt%3B\<close> the helper does not return \<open><foo>\<close>:
  it returns the string as it was given. \<open>decodeURI\<close>, which runs first, leaves
  the escapes of reserved characters as they are written, among them \<open>%26\<close>
  (the ampersand) and \<open>%3B\<close> (the semicolon), so that no entity appears for the
  substitutions to replace. An escape of another character is decoded, and before
  the substitutions (\<open>&l%74;\<close> gives \<open><\<close>); the escape \<open>%2F\<close> of the
  reserved slash stays; and the ampersand is substituted last (\<open>&amp;lt;\<close> gives
  \<open>&lt;\<close>).
\<close>

theorem decodeXml_reserved_escapes_kept:
  "decodeURI (js ''%26lt%3Bfoo%26gt%3B'') = Inr (js ''%26lt%3Bfoo%26gt%3B'') \<and>
   decodeXml (js ''%26lt%3Bfoo%26gt%3B'') = Inr (js ''%26lt%3Bfoo%26gt%3B'') \<and>
   decodeXml (js ''%26lt%3Bfoo%26gt%3B'') \<noteq> Inr (js ''<foo>'') \<and>
   decodeXml (js ''&lt;foo&gt;'') = Inr (js ''<foo>'') \<and>
   decodeXml (js ''&l%74;'') = Inr (js ''<'') \<and>
   decodeXml (js ''&lt;%2Ffoo&gt;'') = Inr (js ''<%2Ffoo>'') \<and>
   decodeXml (js ''&amp;lt;'') = Inr (js ''&lt;'')"
proof -
  have a: "decodeURI (js ''%26lt%3Bfoo%26gt%3B'') = Inr (js ''%26lt%3Bfoo%26gt%3B'')"
    by code_simp
  have b: "decodeXml (js ''%26lt%3Bfoo%26gt%3B'') = Inr (js ''%26lt%3Bfoo%26gt%3B'')"
    by code_simp
  have c: "decodeXml (js ''%26lt%3Bfoo%26gt%3B'') \<noteq> Inr (js ''<foo>'')"
    by code_simp
  have d: "decodeXml (js ''&lt;foo&gt;'') = Inr (js ''<foo>'')"
    by code_simp
  have e: "decodeXml (js ''&l%74;'') = Inr (js ''<'')"
    by code_simp
  have f: "decodeXml (js ''&lt;%2Ffoo&gt;'') = Inr (js ''<%2Ffoo>'')"
    by code_simp
  have g: "decodeXml (js ''&amp;lt;'') = Inr (js ''&lt;'')"
    by code_simp
  from a b c d e f g show ?thesis by blast
qed

theorem decodeXml_reserved_escapes_kept_witness:
  "decodeXml (js ''%26lt%3Bfoo%26gt%3B'') \<noteq> Inr (js ''<foo>'')"
  using decodeXml_reserved_escapes_kept by blast

end
